theory Spec2Isabelle
  imports Main "HOL-Library.Word"
begin

unbundle bit_operations_syntax

section \<open>Machine types and platform constants\<close>

text \<open>
  The module is built for Android on a 64-bit ARM target: a C \<open>int\<close> is a 32-bit word,
  read as two's complement by \<open>sint\<close> wherever the source compares it with \<open>< 0\<close>; a
  pointer, \<open>size_t\<close> and the \<open>uint64_t\<close> padding of the unions are 64-bit words.
\<close>

type_synonym int32 = "32 word"
type_synonym addr = "64 word"

text \<open>
  Values the source takes from platform headers that are not part of the repository:
  \<open>EINVAL\<close> from \<open>errno.h\<close>, the size of the three-integer header
  \<open>native_handle\<close> from \<open>cutils/native_handle.h\<close>, and the two CPU usage masks from
  \<open>hardware/gralloc.h\<close>.
\<close>

definition EINVAL :: int32 where
  "EINVAL = 22"

definition sizeof_native_handle :: int32 where
  "sizeof_native_handle = 12"

definition GRALLOC_USAGE_SW_READ_MASK :: int32 where
  "GRALLOC_USAGE_SW_READ_MASK = 0x0000000F"

definition GRALLOC_USAGE_SW_WRITE_MASK :: int32 where
  "GRALLOC_USAGE_SW_WRITE_MASK = 0x000000F0"

section \<open>The handle descriptor (gralloc\_priv.h)\<close>

datatype mali_gralloc_yuv_info =
    MALI_YUV_NO_INFO
  | MALI_YUV_BT601_NARROW
  | MALI_YUV_BT601_WIDE
  | MALI_YUV_BT709_NARROW
  | MALI_YUV_BT709_WIDE

text \<open>The transport envelope \<open>native_handle\<close> that \<open>private_handle_t\<close> derives from.\<close>

record native_handle =
  version :: int32
  numFds :: int32
  numInts :: int32

text \<open>
  \<open>struct private_handle_t : public native_handle\<close>, field by field in the order of the
  source. The field \<open>size\<close> is named \<open>size_h\<close> here; the anonymous unions are
  represented by their pointer (or \<open>off_t\<close>) member.
\<close>

record private_handle_t = native_handle +
  share_fd :: int32
  share_attr_fd :: int32
  ion_hnd :: int32
  magic :: int32
  internal_format :: "64 word"
  flags :: int32
  usage :: int32
  size_h :: int32
  width :: int32
  height :: int32
  format :: int32
  stride :: int32
  base :: addr
  lockState :: int32
  writeOwner :: int32
  pid :: int32
  attr_base :: addr
  yuv_info :: mali_gralloc_yuv_info
  fd :: int32
  offset :: "64 word"
  min_pgsz :: int32

definition PRIV_FLAGS_FRAMEBUFFER :: int32 where
  "PRIV_FLAGS_FRAMEBUFFER = 0x00000001"

definition PRIV_FLAGS_USES_ION_COMPOUND_HEAP :: int32 where
  "PRIV_FLAGS_USES_ION_COMPOUND_HEAP = 0x00000002"

definition PRIV_FLAGS_USES_ION :: int32 where
  "PRIV_FLAGS_USES_ION = 0x00000004"

definition PRIV_FLAGS_USES_ION_DMA_HEAP :: int32 where
  "PRIV_FLAGS_USES_ION_DMA_HEAP = 0x00000008"

definition LOCK_STATE_WRITE :: int32 where
  "LOCK_STATE_WRITE = push_bit 31 1"

definition LOCK_STATE_MAPPED :: int32 where
  "LOCK_STATE_MAPPED = push_bit 30 1"

definition LOCK_STATE_READ_MASK :: int32 where
  "LOCK_STATE_READ_MASK = 0x3FFFFFFF"

text \<open>
  With \<open>GRALLOC_ARM_DMA_BUF_MODULE = 1\<close> and \<open>GRALLOC_ARM_UMP_MODULE = 0\<close> the
  conditional counts are \<open>GRALLOC_ARM_UMP_NUM_INTS = 0\<close>,
  \<open>GRALLOC_ARM_DMA_BUF_NUM_INTS = 2\<close> and \<open>GRALLOC_ARM_NUM_FDS = 1\<close>.
\<close>

definition GRALLOC_ARM_UMP_NUM_INTS :: int32 where
  "GRALLOC_ARM_UMP_NUM_INTS = 0"

definition GRALLOC_ARM_DMA_BUF_NUM_INTS :: int32 where
  "GRALLOC_ARM_DMA_BUF_NUM_INTS = 2"

definition GRALLOC_ARM_NUM_FDS :: int32 where
  "GRALLOC_ARM_NUM_FDS = 1"

definition sNumInts :: int32 where
  "sNumInts = 15 + GRALLOC_ARM_UMP_NUM_INTS + GRALLOC_ARM_DMA_BUF_NUM_INTS"

definition sNumFds :: int32 where
  "sNumFds = GRALLOC_ARM_NUM_FDS"

definition sMagic :: int32 where
  "sMagic = 0x3141592"

text \<open>
  The constructor. It initialises the fields of its initialiser list and the three
  envelope fields; \<open>share_attr_fd\<close>, \<open>internal_format\<close>, \<open>attr_base\<close> and
  \<open>min_pgsz\<close> are not initialised, so they keep whatever the storage \<open>mem\<close> held.
  \<open>cur_pid\<close> is the result of \<open>getpid()\<close>; \<open>fb_offset\<close> is an \<open>int\<close> converted to
  \<open>off_t\<close>.
\<close>

definition private_handle_t_ctor ::
  "private_handle_t \<Rightarrow> int32 \<Rightarrow> int32 \<Rightarrow> int32 \<Rightarrow> int32 \<Rightarrow> addr \<Rightarrow> int32 \<Rightarrow> int32 \<Rightarrow> int32
    \<Rightarrow> private_handle_t" where
  "private_handle_t_ctor mem cur_pid flags' usage' size' base' lock_state fb_file fb_offset =
     mem\<lparr>share_fd := - 1,
         ion_hnd := - 1,
         magic := sMagic,
         flags := flags',
         usage := usage',
         size_h := size',
         width := 0,
         height := 0,
         format := 0,
         stride := 0,
         base := base',
         lockState := lock_state,
         writeOwner := 0,
         pid := cur_pid,
         yuv_info := MALI_YUV_NO_INFO,
         fd := fb_file,
         offset := scast fb_offset,
         version := sizeof_native_handle,
         numFds := sNumFds,
         numInts := sNumInts\<rparr>"

text \<open>
  \<open>validate\<close>: a handle pointer is \<open>None\<close> when it is null. The disjunction is the
  source's condition, in its order.
\<close>

definition validate :: "private_handle_t option \<Rightarrow> int32" where
  "validate h =
     (case h of
        None \<Rightarrow> - EINVAL
      | Some hnd \<Rightarrow>
          if version hnd \<noteq> sizeof_native_handle \<or> numInts hnd \<noteq> sNumInts
             \<or> numFds hnd \<noteq> sNumFds \<or> magic hnd \<noteq> sMagic
          then - EINVAL
          else 0)"

definition dynamicCast :: "private_handle_t option \<Rightarrow> private_handle_t option" where
  "dynamicCast h = (if validate h = 0 then h else None)"

text \<open>All-zero storage, used to build concrete handles for evaluation.\<close>

definition zeroed_storage :: private_handle_t where
  "zeroed_storage =
     \<lparr>version = 0, numFds = 0, numInts = 0,
      share_fd = 0, share_attr_fd = 0, ion_hnd = 0, magic = 0, internal_format = 0,
      flags = 0, usage = 0, size_h = 0, width = 0, height = 0, format = 0, stride = 0,
      base = 0, lockState = 0, writeOwner = 0, pid = 0, attr_base = 0,
      yuv_info = MALI_YUV_NO_INFO, fd = 0, offset = 0, min_pgsz = 0\<rparr>"

section \<open>The environment of the four operations (gralloc\_module.cpp)\<close>

text \<open>
  Of \<open>struct private_module_t\<close> the operations read one field, \<open>ion_client\<close>, through
  the module pointer that \<open>hw_get_module\<close> stores.
\<close>

record private_module_t =
  ion_client :: int32

text \<open>
  What the operations call outside this file. \<open>getpid\<close> is the calling process;
  \<open>munmap\<close> gives the status of the system call for an address and a length;
  \<open>hw_get_module\<close> gives the status of the module lookup and the module found;
  \<open>gralloc_backend_register\<close> is declared in
  \<open>gralloc_module_allocator_specific.h\<close>, which is not among the sources: it is taken as
  a parameter, a function from the handle to its status and the handle as it leaves it.
\<close>

record env =
  getpid :: int32
  munmap :: "addr \<Rightarrow> 64 word \<Rightarrow> int32"
  hw_get_module :: "int32 \<times> private_module_t"
  gralloc_backend_register :: "private_handle_t \<Rightarrow> int32 \<times> private_handle_t"

text \<open>The \<open>AERR\<close> and \<open>AERR_IF\<close> log statements of the source, one name per site.\<close>

datatype log_site =
    Register_invalid_buffer
  | Register_framebuffer
  | Register_unknown_flags
  | Unregister_invalid_buffer
  | Unregister_still_locked
  | Unregister_framebuffer
  | Unregister_munmap_failed
  | Unregister_unknown_buffer
  | Unregister_other_process
  | Lock_invalid_buffer
  | Unlock_invalid_buffer
  | Unlock_no_module

text \<open>
  The calls an operation makes, in order: a log line, the backend's mapping primitive,
  \<open>munmap(base, size)\<close>, and \<open>ion_sync_fd(ion_client, share_fd)\<close>.
\<close>

datatype event =
    AERR log_site
  | Backend_register
  | Munmap addr "64 word"
  | Ion_sync_fd int32 int32

section \<open>Registration (gralloc\_module.cpp)\<close>

text \<open>
  Each operation returns its \<open>int\<close> result, the handle as the call leaves it, and the
  calls it made. The mutex \<open>s_map_lock\<close> has no effect on a single call and is left out.
  After a successful \<open>validate\<close> the handle is not null; the \<open>None\<close> branch is the
  failed validation.
\<close>

definition gralloc_register_buffer ::
  "env \<Rightarrow> private_handle_t option \<Rightarrow> int32 \<times> private_handle_t option \<times> event list" where
  "gralloc_register_buffer e handle =
     (if validate handle <s 0 then (- EINVAL, handle, [AERR Register_invalid_buffer])
      else case handle of
        None \<Rightarrow> (- EINVAL, handle, [AERR Register_invalid_buffer])
      | Some hnd0 \<Rightarrow>
          let retval = - EINVAL;
              hnd = hnd0\<lparr>pid := getpid e\<rparr>
          in if flags hnd AND PRIV_FLAGS_FRAMEBUFFER \<noteq> 0
             then (retval, Some hnd, [AERR Register_framebuffer])
             else if flags hnd AND PRIV_FLAGS_USES_ION \<noteq> 0
             then (case gralloc_backend_register e hnd of
                     (r, hnd') \<Rightarrow> (r, Some hnd', [Backend_register]))
             else (retval, Some hnd, [AERR Register_unknown_flags]))"

definition gralloc_unregister_buffer ::
  "env \<Rightarrow> private_handle_t option \<Rightarrow> int32 \<times> private_handle_t option \<times> event list" where
  "gralloc_unregister_buffer e handle =
     (if validate handle <s 0 then (- EINVAL, handle, [AERR Unregister_invalid_buffer])
      else case handle of
        None \<Rightarrow> (- EINVAL, handle, [AERR Unregister_invalid_buffer])
      | Some hnd \<Rightarrow>
          let still_locked =
                (if lockState hnd AND LOCK_STATE_READ_MASK \<noteq> 0
                 then [AERR Unregister_still_locked] else [])
          in if flags hnd AND PRIV_FLAGS_FRAMEBUFFER \<noteq> 0
             then (0, Some hnd, still_locked @ [AERR Unregister_framebuffer])
             else if pid hnd = getpid e
             then
               let unmap =
                     (if flags hnd AND PRIV_FLAGS_USES_ION \<noteq> 0
                      then Munmap (base hnd) (scast (size_h hnd))
                           # (if munmap e (base hnd) (scast (size_h hnd)) <s 0
                              then [AERR Unregister_munmap_failed] else [])
                      else [AERR Unregister_unknown_buffer])
               in (0, Some (hnd\<lparr>base := 0, lockState := 0, writeOwner := 0\<rparr>),
                   still_locked @ unmap)
             else (0, Some hnd, still_locked @ [AERR Unregister_other_process]))"

section \<open>Access synchronisation (gralloc\_module.cpp)\<close>

text \<open>
  \<open>gralloc_lock\<close> also returns what it stores through \<open>vaddr\<close>: \<open>Some\<close> address when
  it assigns \<open>*vaddr\<close>, \<open>None\<close> when it leaves \<open>*vaddr\<close> untouched. The rectangle
  \<open>l, t, w, h\<close> is unused by the source.
\<close>

definition gralloc_lock ::
  "private_handle_t option \<Rightarrow> int32 \<Rightarrow> int32 \<Rightarrow> int32 \<Rightarrow> int32 \<Rightarrow> int32
    \<Rightarrow> int32 \<times> private_handle_t option \<times> addr option \<times> event list" where
  "gralloc_lock handle usage' l t w h =
     (if validate handle <s 0 then (- EINVAL, handle, None, [AERR Lock_invalid_buffer])
      else case handle of
        None \<Rightarrow> (- EINVAL, handle, None, [AERR Lock_invalid_buffer])
      | Some hnd0 \<Rightarrow>
          let hnd = (if flags hnd0 AND PRIV_FLAGS_USES_ION \<noteq> 0
                     then hnd0\<lparr>writeOwner := usage' AND GRALLOC_USAGE_SW_WRITE_MASK\<rparr>
                     else hnd0);
              vaddr = (if usage' AND (GRALLOC_USAGE_SW_READ_MASK OR GRALLOC_USAGE_SW_WRITE_MASK) \<noteq> 0
                       then Some (base hnd) else None)
          in (0, Some hnd, vaddr, []))"

definition gralloc_unlock ::
  "env \<Rightarrow> private_handle_t option \<Rightarrow> int32 \<times> private_handle_t option \<times> event list" where
  "gralloc_unlock e handle =
     (if validate handle <s 0 then (- EINVAL, handle, [AERR Unlock_invalid_buffer])
      else case handle of
        None \<Rightarrow> (- EINVAL, handle, [AERR Unlock_invalid_buffer])
      | Some hnd \<Rightarrow>
          let sync =
                (if flags hnd AND PRIV_FLAGS_USES_ION \<noteq> 0 \<and> writeOwner hnd \<noteq> 0
                 then (case hw_get_module e of
                         (status, m) \<Rightarrow>
                           if status = 0 then [Ion_sync_fd (ion_client m) (share_fd hnd)]
                           else [AERR Unlock_no_module])
                 else [])
          in (0, Some hnd, sync))"

text \<open>Whether a call issued the cache synchronisation, or an unmap.\<close>

fun is_sync :: "event \<Rightarrow> bool" where
  "is_sync (Ion_sync_fd c f) = True"
| "is_sync _ = False"

fun is_munmap :: "event \<Rightarrow> bool" where
  "is_munmap (Munmap a n) = True"
| "is_munmap _ = False"

text \<open>An environment for concrete evaluation: every external call succeeds.\<close>

definition sample_env :: "int32 \<Rightarrow> env" where
  "sample_env p =
     \<lparr>getpid = p,
      munmap = (\<lambda>a n. 0),
      hw_get_module = (0, \<lparr>ion_client = 7\<rparr>),
      gralloc_backend_register = (\<lambda>h. (0, h\<lparr>base := 0x1000\<rparr>))\<rparr>"

text \<open>
  A concrete handle for evaluation: built by the constructor in all-zero storage by
  process \<open>p\<close>, with flags \<open>f\<close>, 4096 bytes, mapped at \<open>0x1000\<close>.
\<close>

definition sample_handle :: "int32 \<Rightarrow> int32 \<Rightarrow> private_handle_t" where
  "sample_handle f p = private_handle_t_ctor zeroed_storage p f 0 4096 0x1000 0 0 0"

section \<open>Basic facts about validation and the four operations\<close>

lemma EINVAL_neq_0: "- EINVAL \<noteq> 0"
  by (simp add: EINVAL_def)

lemma validate_values: "validate h = 0 \<or> validate h = - EINVAL"
  by (simp add: validate_def split: option.split)

lemma validate_Some_iff:
  "validate (Some hnd) = 0 \<longleftrightarrow>
     version hnd = sizeof_native_handle \<and> numInts hnd = sNumInts
     \<and> numFds hnd = sNumFds \<and> magic hnd = sMagic"
  by (auto simp: validate_def EINVAL_def)

lemma validate_ctor:
  "validate (Some (private_handle_t_ctor mem p f u s b l ff fo)) = 0"
  by (simp add: validate_Some_iff private_handle_t_ctor_def)

lemmas eval_defs =
  sample_handle_def private_handle_t_ctor_def zeroed_storage_def sample_env_def
  EINVAL_def sizeof_native_handle_def sNumInts_def sNumFds_def sMagic_def
  GRALLOC_ARM_UMP_NUM_INTS_def GRALLOC_ARM_DMA_BUF_NUM_INTS_def GRALLOC_ARM_NUM_FDS_def
  PRIV_FLAGS_FRAMEBUFFER_def PRIV_FLAGS_USES_ION_def LOCK_STATE_READ_MASK_def
  GRALLOC_USAGE_SW_READ_MASK_def GRALLOC_USAGE_SW_WRITE_MASK_def

lemma neg_EINVAL_sless: "- EINVAL <s 0"
  by (simp add: EINVAL_def word_sless_alt)

lemma validate_sless_iff: "validate h <s 0 \<longleftrightarrow> validate h \<noteq> 0"
  using validate_values [of h] neg_EINVAL_sless EINVAL_neq_0 by auto

lemma validate_None: "validate None = - EINVAL"
  by (simp add: validate_def)

lemma and_or_mask_eq_0:
  fixes x :: int32
  shows "x AND (a OR b) = 0 \<longleftrightarrow> x AND a = 0 \<and> x AND b = 0"
  by (simp add: bit.conj_disj_distrib or_eq_0_iff)

lemma register_invalid:
  "validate h \<noteq> 0 \<Longrightarrow>
   gralloc_register_buffer e h = (- EINVAL, h, [AERR Register_invalid_buffer])"
  by (simp add: gralloc_register_buffer_def validate_sless_iff)

lemma unregister_invalid:
  "validate h \<noteq> 0 \<Longrightarrow>
   gralloc_unregister_buffer e h = (- EINVAL, h, [AERR Unregister_invalid_buffer])"
  by (simp add: gralloc_unregister_buffer_def validate_sless_iff)

lemma lock_invalid:
  "validate h \<noteq> 0 \<Longrightarrow>
   gralloc_lock h u l t w r = (- EINVAL, h, None, [AERR Lock_invalid_buffer])"
  by (simp add: gralloc_lock_def validate_sless_iff)

lemma unlock_invalid:
  "validate h \<noteq> 0 \<Longrightarrow>
   gralloc_unlock e h = (- EINVAL, h, [AERR Unlock_invalid_buffer])"
  by (simp add: gralloc_unlock_def validate_sless_iff)

lemma register_valid:
  "validate (Some hnd) = 0 \<Longrightarrow>
   gralloc_register_buffer e (Some hnd) =
     (if flags hnd AND PRIV_FLAGS_FRAMEBUFFER \<noteq> 0
      then (- EINVAL, Some (hnd\<lparr>pid := getpid e\<rparr>), [AERR Register_framebuffer])
      else if flags hnd AND PRIV_FLAGS_USES_ION \<noteq> 0
      then (fst (gralloc_backend_register e (hnd\<lparr>pid := getpid e\<rparr>)),
            Some (snd (gralloc_backend_register e (hnd\<lparr>pid := getpid e\<rparr>))),
            [Backend_register])
      else (- EINVAL, Some (hnd\<lparr>pid := getpid e\<rparr>), [AERR Register_unknown_flags]))"
  by (simp add: gralloc_register_buffer_def validate_sless_iff Let_def split: prod.split)

lemma unregister_valid:
  "validate (Some hnd) = 0 \<Longrightarrow>
   gralloc_unregister_buffer e (Some hnd) =
     (if flags hnd AND PRIV_FLAGS_FRAMEBUFFER \<noteq> 0
      then (0, Some hnd,
            (if lockState hnd AND LOCK_STATE_READ_MASK \<noteq> 0
             then [AERR Unregister_still_locked] else [])
            @ [AERR Unregister_framebuffer])
      else if pid hnd = getpid e
      then (0, Some (hnd\<lparr>base := 0, lockState := 0, writeOwner := 0\<rparr>),
            (if lockState hnd AND LOCK_STATE_READ_MASK \<noteq> 0
             then [AERR Unregister_still_locked] else [])
            @ (if flags hnd AND PRIV_FLAGS_USES_ION \<noteq> 0
               then Munmap (base hnd) (scast (size_h hnd))
                    # (if munmap e (base hnd) (scast (size_h hnd)) <s 0
                       then [AERR Unregister_munmap_failed] else [])
               else [AERR Unregister_unknown_buffer]))
      else (0, Some hnd,
            (if lockState hnd AND LOCK_STATE_READ_MASK \<noteq> 0
             then [AERR Unregister_still_locked] else [])
            @ [AERR Unregister_other_process]))"
  by (simp add: gralloc_unregister_buffer_def validate_sless_iff Let_def)

lemma lock_valid:
  "validate (Some hnd) = 0 \<Longrightarrow>
   gralloc_lock (Some hnd) u l t w r =
     (0,
      Some (if flags hnd AND PRIV_FLAGS_USES_ION \<noteq> 0
            then hnd\<lparr>writeOwner := u AND GRALLOC_USAGE_SW_WRITE_MASK\<rparr> else hnd),
      (if u AND (GRALLOC_USAGE_SW_READ_MASK OR GRALLOC_USAGE_SW_WRITE_MASK) \<noteq> 0
       then Some (base hnd) else None),
      [])"
  by (simp add: gralloc_lock_def validate_sless_iff Let_def)

lemma unlock_valid:
  "validate (Some hnd) = 0 \<Longrightarrow>
   gralloc_unlock e (Some hnd) =
     (0, Some hnd,
      (if flags hnd AND PRIV_FLAGS_USES_ION \<noteq> 0 \<and> writeOwner hnd \<noteq> 0
       then (if fst (hw_get_module e) = 0
             then [Ion_sync_fd (ion_client (snd (hw_get_module e))) (share_fd hnd)]
             else [AERR Unlock_no_module])
       else []))"
  by (simp add: gralloc_unlock_def validate_sless_iff Let_def split: prod.split)

lemma sample_handle_valid: "validate (Some (sample_handle f p)) = 0"
  by (simp add: sample_handle_def validate_ctor)

section \<open>Validation\<close>

text \<open>
  Claim C1, as the code has it: \<open>validate\<close> succeeds if and only if the handle is not
  null, its \<open>version\<close> equals the size of the \<open>native_handle\<close> header, and the magic
  field, the integer count and the file-descriptor count equal \<open>sMagic\<close>, \<open>sNumInts\<close>
  and \<open>sNumFds\<close>, all at once; a mismatch in any one of them makes it fail with
  \<open>-EINVAL\<close>, a negative result.
\<close>

theorem validate_iff_all_checks:
  "(validate h = 0 \<longleftrightarrow>
      (\<exists>hnd. h = Some hnd \<and> version hnd = sizeof_native_handle \<and> numInts hnd = sNumInts
         \<and> numFds hnd = sNumFds \<and> magic hnd = sMagic))
   \<and> (validate h \<noteq> 0 \<longrightarrow> validate h = - EINVAL \<and> validate h <s 0)"
proof -
  have iff: "validate h = 0 \<longleftrightarrow>
      (\<exists>hnd. h = Some hnd \<and> version hnd = sizeof_native_handle \<and> numInts hnd = sNumInts
         \<and> numFds hnd = sNumFds \<and> magic hnd = sMagic)"
    by (cases h) (simp_all add: validate_None EINVAL_def validate_Some_iff)
  have err: "validate h \<noteq> 0 \<longrightarrow> validate h = - EINVAL \<and> validate h <s 0"
    using validate_values [of h] neg_EINVAL_sless by auto
  from iff err show ?thesis by blast
qed

theorem validate_iff_all_checks_witness:
  "validate (Some (sample_handle 4 1)) = 0
   \<and> validate (Some ((sample_handle 4 1)\<lparr>numFds := 0\<rparr>)) = - EINVAL"
  using validate_iff_all_checks [of "Some (sample_handle 4 1)"]
    validate_iff_all_checks [of "Some ((sample_handle 4 1)\<lparr>numFds := 0\<rparr>)"]
  by (simp add: eval_defs)

text \<open>
  Claim C1 as stated, with the three fields alone deciding, fails: a handle whose magic,
  integer count and file-descriptor count all match, but whose \<open>version\<close> is 0, is
  refused.
\<close>

theorem validate_three_fields_counterexample:
  "magic ((sample_handle 4 1)\<lparr>version := 0\<rparr>) = sMagic
   \<and> numInts ((sample_handle 4 1)\<lparr>version := 0\<rparr>) = sNumInts
   \<and> numFds ((sample_handle 4 1)\<lparr>version := 0\<rparr>) = sNumFds
   \<and> validate (Some ((sample_handle 4 1)\<lparr>version := 0\<rparr>)) = - EINVAL
   \<and> validate (Some ((sample_handle 4 1)\<lparr>version := 0\<rparr>)) \<noteq> 0"
  by (simp add: validate_def eval_defs)

text \<open>
  Claim C9: \<open>validate\<close> also refuses a null handle, and a handle whose magic, integer
  count and file-descriptor count match but whose \<open>version\<close> differs from the size of
  the \<open>native_handle\<close> header: the result is \<open>-EINVAL\<close>, which is negative, and
  \<open>dynamicCast\<close> then returns no typed view.
\<close>

theorem validate_rejects_null_and_version:
  "validate None = - EINVAL \<and> dynamicCast None = None \<and> - EINVAL <s 0
   \<and> (magic hnd = sMagic \<and> numInts hnd = sNumInts \<and> numFds hnd = sNumFds
        \<and> version hnd \<noteq> sizeof_native_handle
       \<longrightarrow> validate (Some hnd) = - EINVAL \<and> dynamicCast (Some hnd) = None)"
  by (simp add: validate_def dynamicCast_def EINVAL_def word_sless_alt)

theorem validate_rejects_null_and_version_witness:
  "magic ((sample_handle 4 1)\<lparr>version := 16\<rparr>) = sMagic
   \<and> numInts ((sample_handle 4 1)\<lparr>version := 16\<rparr>) = sNumInts
   \<and> numFds ((sample_handle 4 1)\<lparr>version := 16\<rparr>) = sNumFds
   \<and> version ((sample_handle 4 1)\<lparr>version := 16\<rparr>) \<noteq> sizeof_native_handle
   \<and> validate (Some ((sample_handle 4 1)\<lparr>version := 16\<rparr>)) = - EINVAL
   \<and> dynamicCast (Some ((sample_handle 4 1)\<lparr>version := 16\<rparr>)) = None"
  using validate_rejects_null_and_version [of "(sample_handle 4 1)\<lparr>version := 16\<rparr>"]
  by (simp add: eval_defs)

section \<open>Registration and unregistration\<close>

text \<open>
  Claim C3: for every valid handle without the framebuffer bit whose recorded \<open>pid\<close>
  differs from the calling process, \<open>gralloc_unregister_buffer\<close> returns 0, leaves the
  handle exactly as it was (every field, among them \<open>base\<close>, \<open>lockState\<close>,
  \<open>writeOwner\<close> and \<open>pid\<close>), and issues no \<open>munmap\<close>.
\<close>

theorem unregister_other_process_noop:
  assumes "validate (Some hnd) = 0"
    and "flags hnd AND PRIV_FLAGS_FRAMEBUFFER = 0"
    and "pid hnd \<noteq> getpid e"
  shows "fst (gralloc_unregister_buffer e (Some hnd)) = 0
    \<and> fst (snd (gralloc_unregister_buffer e (Some hnd))) = Some hnd
    \<and> \<not> list_ex is_munmap (snd (snd (gralloc_unregister_buffer e (Some hnd))))"
  using assms by (simp add: unregister_valid)

theorem unregister_other_process_noop_witness:
  "validate (Some (sample_handle 4 1)) = 0
   \<and> flags (sample_handle 4 1) AND PRIV_FLAGS_FRAMEBUFFER = 0
   \<and> pid (sample_handle 4 1) \<noteq> getpid (sample_env 2)
   \<and> fst (gralloc_unregister_buffer (sample_env 2) (Some (sample_handle 4 1))) = 0
   \<and> fst (snd (gralloc_unregister_buffer (sample_env 2) (Some (sample_handle 4 1))))
       = Some (sample_handle 4 1)
   \<and> snd (snd (gralloc_unregister_buffer (sample_env 2) (Some (sample_handle 4 1))))
       = [AERR Unregister_other_process]"
proof -
  have v: "validate (Some (sample_handle 4 1)) = 0"
    by (rule sample_handle_valid)
  have f: "flags (sample_handle 4 1) AND PRIV_FLAGS_FRAMEBUFFER = 0"
    by (simp add: eval_defs)
  have p: "pid (sample_handle 4 1) \<noteq> getpid (sample_env 2)"
    by (simp add: eval_defs)
  have evs: "snd (snd (gralloc_unregister_buffer (sample_env 2) (Some (sample_handle 4 1))))
       = [AERR Unregister_other_process]"
    using f p by (simp add: unregister_valid [OF v]) (simp add: eval_defs)
  from unregister_other_process_noop [OF v f p] v f p evs show ?thesis
    by blast
qed

text \<open>
  Claim C4: for every valid handle whose flags include the framebuffer bit, whatever its
  other flags, its \<open>pid\<close> and the environment, \<open>gralloc_register_buffer\<close> returns the
  negative \<open>-EINVAL\<close> without calling the mapping primitive, and
  \<open>gralloc_unregister_buffer\<close> performs neither the unmap nor the clean-up: it leaves
  the handle as it was and issues no \<open>munmap\<close> (its own return value is 0).
\<close>

theorem framebuffer_rejected:
  assumes "validate (Some hnd) = 0"
    and "flags hnd AND PRIV_FLAGS_FRAMEBUFFER \<noteq> 0"
  shows "gralloc_register_buffer e (Some hnd)
           = (- EINVAL, Some (hnd\<lparr>pid := getpid e\<rparr>), [AERR Register_framebuffer])
    \<and> - EINVAL <s 0
    \<and> fst (gralloc_unregister_buffer e (Some hnd)) = 0
    \<and> fst (snd (gralloc_unregister_buffer e (Some hnd))) = Some hnd
    \<and> \<not> list_ex is_munmap (snd (snd (gralloc_unregister_buffer e (Some hnd))))"
  using assms by (simp add: register_valid unregister_valid neg_EINVAL_sless)

theorem framebuffer_rejected_witness:
  "validate (Some (sample_handle 5 1)) = 0
   \<and> flags (sample_handle 5 1) AND PRIV_FLAGS_FRAMEBUFFER \<noteq> 0
   \<and> gralloc_register_buffer (sample_env 2) (Some (sample_handle 5 1))
       = (- EINVAL, Some ((sample_handle 5 1)\<lparr>pid := getpid (sample_env 2)\<rparr>),
          [AERR Register_framebuffer])
   \<and> fst (snd (gralloc_unregister_buffer (sample_env 1) (Some (sample_handle 5 1))))
       = Some (sample_handle 5 1)
   \<and> snd (snd (gralloc_unregister_buffer (sample_env 1) (Some (sample_handle 5 1))))
       = [AERR Unregister_framebuffer]"
proof -
  have v: "validate (Some (sample_handle 5 1)) = 0"
    by (rule sample_handle_valid)
  have f: "flags (sample_handle 5 1) AND PRIV_FLAGS_FRAMEBUFFER \<noteq> 0"
    by (simp add: eval_defs)
  have evs: "snd (snd (gralloc_unregister_buffer (sample_env 1) (Some (sample_handle 5 1))))
       = [AERR Unregister_framebuffer]"
    using f by (simp add: unregister_valid [OF v]) (simp add: eval_defs)
  from framebuffer_rejected [OF v f, of "sample_env 2"]
    framebuffer_rejected [OF v f, of "sample_env 1"] v f evs
  show ?thesis by blast
qed

text \<open>
  Claim C5, as the code has it: for every valid handle without the framebuffer bit whose
  recorded \<open>pid\<close> is the calling process, \<open>gralloc_unregister_buffer\<close> returns 0 and
  sets \<open>base\<close>, \<open>lockState\<close> and \<open>writeOwner\<close> to zero, whatever \<open>munmap\<close>
  answers (the environment \<open>e\<close> is arbitrary). A second call from the same process, on
  the handle as the first call left it, returns 0 again and leaves the handle unchanged,
  those fields still zero; it is not free of effects, though: \<open>pid\<close> and \<open>flags\<close>
  are as before, so it takes the same branch, and for a handle with the ION bit it calls
  \<open>munmap\<close> once more, at address 0 with the handle's size, logging a failure of that
  call; without the ION bit it logs the unknown-buffer line again.
\<close>

theorem unregister_zeroes_and_repeats:
  assumes "validate (Some hnd) = 0"
    and "flags hnd AND PRIV_FLAGS_FRAMEBUFFER = 0"
    and "pid hnd = getpid e"
    and "getpid e' = getpid e"
  shows "fst (gralloc_unregister_buffer e (Some hnd)) = 0
    \<and> fst (snd (gralloc_unregister_buffer e (Some hnd)))
        = Some (hnd\<lparr>base := 0, lockState := 0, writeOwner := 0\<rparr>)
    \<and> fst (gralloc_unregister_buffer e' (fst (snd (gralloc_unregister_buffer e (Some hnd))))) = 0
    \<and> fst (snd (gralloc_unregister_buffer e' (fst (snd (gralloc_unregister_buffer e (Some hnd))))))
        = Some (hnd\<lparr>base := 0, lockState := 0, writeOwner := 0\<rparr>)
    \<and> snd (snd (gralloc_unregister_buffer e' (fst (snd (gralloc_unregister_buffer e (Some hnd))))))
        = (if flags hnd AND PRIV_FLAGS_USES_ION \<noteq> 0
           then Munmap 0 (scast (size_h hnd))
                # (if munmap e' 0 (scast (size_h hnd)) <s 0
                   then [AERR Unregister_munmap_failed] else [])
           else [AERR Unregister_unknown_buffer])"
proof -
  let ?h1 = "hnd\<lparr>base := 0, lockState := 0, writeOwner := 0\<rparr>"
  have first: "fst (gralloc_unregister_buffer e (Some hnd)) = 0"
    "fst (snd (gralloc_unregister_buffer e (Some hnd))) = Some ?h1"
    using assms by (simp_all add: unregister_valid)
  have valid1: "validate (Some ?h1) = 0"
    using assms(1) by (simp add: validate_Some_iff)
  have second: "fst (gralloc_unregister_buffer e' (Some ?h1)) = 0"
    "fst (snd (gralloc_unregister_buffer e' (Some ?h1))) = Some ?h1"
    using assms by (simp_all add: unregister_valid [OF valid1])
  have calls: "snd (snd (gralloc_unregister_buffer e' (Some ?h1)))
        = (if flags hnd AND PRIV_FLAGS_USES_ION \<noteq> 0
           then Munmap 0 (scast (size_h hnd))
                # (if munmap e' 0 (scast (size_h hnd)) <s 0
                   then [AERR Unregister_munmap_failed] else [])
           else [AERR Unregister_unknown_buffer])"
    using assms by (simp add: unregister_valid [OF valid1])
  from first second calls show ?thesis by simp
qed

theorem unregister_zeroes_and_repeats_witness:
  "validate (Some ((sample_handle 4 1)\<lparr>lockState := 1, writeOwner := 0x30\<rparr>)) = 0
   \<and> flags ((sample_handle 4 1)\<lparr>lockState := 1, writeOwner := 0x30\<rparr>)
        AND PRIV_FLAGS_FRAMEBUFFER = 0
   \<and> pid ((sample_handle 4 1)\<lparr>lockState := 1, writeOwner := 0x30\<rparr>)
       = getpid ((sample_env 1)\<lparr>munmap := \<lambda>a n. - 1\<rparr>)
   \<and> getpid (sample_env 1) = getpid ((sample_env 1)\<lparr>munmap := \<lambda>a n. - 1\<rparr>)
   \<and> base ((sample_handle 4 1)\<lparr>lockState := 1, writeOwner := 0x30\<rparr>) = 0x1000
   \<and> lockState ((sample_handle 4 1)\<lparr>lockState := 1, writeOwner := 0x30\<rparr>) = 1
   \<and> writeOwner ((sample_handle 4 1)\<lparr>lockState := 1, writeOwner := 0x30\<rparr>) = 0x30
   \<and> snd (snd (gralloc_unregister_buffer ((sample_env 1)\<lparr>munmap := \<lambda>a n. - 1\<rparr>)
         (Some ((sample_handle 4 1)\<lparr>lockState := 1, writeOwner := 0x30\<rparr>))))
       = [AERR Unregister_still_locked, Munmap 0x1000 4096, AERR Unregister_munmap_failed]
   \<and> fst (gralloc_unregister_buffer ((sample_env 1)\<lparr>munmap := \<lambda>a n. - 1\<rparr>)
         (Some ((sample_handle 4 1)\<lparr>lockState := 1, writeOwner := 0x30\<rparr>))) = 0
   \<and> fst (snd (gralloc_unregister_buffer ((sample_env 1)\<lparr>munmap := \<lambda>a n. - 1\<rparr>)
         (Some ((sample_handle 4 1)\<lparr>lockState := 1, writeOwner := 0x30\<rparr>))))
       = Some ((sample_handle 4 1)\<lparr>base := 0\<rparr>)
   \<and> gralloc_unregister_buffer (sample_env 1)
         (fst (snd (gralloc_unregister_buffer ((sample_env 1)\<lparr>munmap := \<lambda>a n. - 1\<rparr>)
            (Some ((sample_handle 4 1)\<lparr>lockState := 1, writeOwner := 0x30\<rparr>)))))
       = (0, Some ((sample_handle 4 1)\<lparr>base := 0\<rparr>), [Munmap 0 4096])"
proof -
  let ?h = "(sample_handle 4 1)\<lparr>lockState := 1, writeOwner := 0x30\<rparr>"
  let ?e = "(sample_env 1)\<lparr>munmap := \<lambda>a n. - 1\<rparr>"
  let ?first = "gralloc_unregister_buffer ?e (Some ?h)"
  let ?second = "gralloc_unregister_buffer (sample_env 1) (fst (snd ?first))"
  have v: "validate (Some ?h) = 0"
    using sample_handle_valid [of 4 1] by (simp add: validate_Some_iff)
  have f: "flags ?h AND PRIV_FLAGS_FRAMEBUFFER = 0"
    by (simp add: eval_defs)
  have p: "pid ?h = getpid ?e"
    by (simp add: eval_defs)
  have q: "getpid (sample_env 1) = getpid ?e"
    by (simp add: eval_defs)
  have b: "base ?h = 0x1000"
    by (simp add: eval_defs)
  have l: "lockState ?h = 1"
    by simp
  have w: "writeOwner ?h = 0x30"
    by simp
  have z: "?h\<lparr>base := 0, lockState := 0, writeOwner := 0\<rparr> = (sample_handle 4 1)\<lparr>base := 0\<rparr>"
    by (simp add: eval_defs)
  have evs: "snd (snd ?first)
       = [AERR Unregister_still_locked, Munmap 0x1000 4096, AERR Unregister_munmap_failed]"
    using f p by (simp add: unregister_valid [OF v]) (simp add: eval_defs word_sless_alt)
  note t = unregister_zeroes_and_repeats [OF v f p q]
  have r1: "fst ?first = 0"
    using t by (rule conjunct1)
  have h1raw: "fst (snd ?first) = Some (?h\<lparr>base := 0, lockState := 0, writeOwner := 0\<rparr>)"
    using t by blast
  have h1: "fst (snd ?first) = Some ((sample_handle 4 1)\<lparr>base := 0\<rparr>)"
    by (simp only: h1raw z)
  have r2: "fst ?second = 0"
    using t by blast
  have h2raw: "fst (snd ?second) = Some (?h\<lparr>base := 0, lockState := 0, writeOwner := 0\<rparr>)"
    using t by blast
  have h2: "fst (snd ?second) = Some ((sample_handle 4 1)\<lparr>base := 0\<rparr>)"
    by (simp only: h2raw z)
  have c2raw: "snd (snd ?second)
        = (if flags ?h AND PRIV_FLAGS_USES_ION \<noteq> 0
           then Munmap 0 (scast (size_h ?h))
                # (if munmap (sample_env 1) 0 (scast (size_h ?h)) <s 0
                   then [AERR Unregister_munmap_failed] else [])
           else [AERR Unregister_unknown_buffer])"
    using t by blast
  have c2: "snd (snd ?second) = [Munmap 0 4096]"
    by (subst c2raw) (simp add: eval_defs word_sless_alt)
  have second: "?second = (0, Some ((sample_handle 4 1)\<lparr>base := 0\<rparr>), [Munmap 0 4096])"
    using r2 h2 c2 by (simp add: prod_eq_iff)
  from v f p q b l w evs r1 h1 second show ?thesis
    by blast
qed

text \<open>
  Claim C5 as stated, with the second call a no-op, fails: for the ION handle that process
  1 created and mapped at \<open>0x1000\<close>, the second unregister from process 1 returns 0 with
  the handle unchanged, yet issues \<open>munmap(0, 4096)\<close>.
\<close>

theorem second_unregister_noop_counterexample:
  "validate (Some (sample_handle 4 1)) = 0
   \<and> flags (sample_handle 4 1) AND PRIV_FLAGS_FRAMEBUFFER = 0
   \<and> pid (sample_handle 4 1) = getpid (sample_env 1)
   \<and> gralloc_unregister_buffer (sample_env 1) (Some (sample_handle 4 1))
       = (0, Some ((sample_handle 4 1)\<lparr>base := 0\<rparr>), [Munmap 0x1000 4096])
   \<and> gralloc_unregister_buffer (sample_env 1) (Some ((sample_handle 4 1)\<lparr>base := 0\<rparr>))
       = (0, Some ((sample_handle 4 1)\<lparr>base := 0\<rparr>), [Munmap 0 4096])
   \<and> list_ex is_munmap
        (snd (snd (gralloc_unregister_buffer (sample_env 1)
           (Some ((sample_handle 4 1)\<lparr>base := 0\<rparr>)))))"
proof -
  let ?h = "sample_handle 4 1"
  let ?h1 = "(sample_handle 4 1)\<lparr>base := 0\<rparr>"
  have v: "validate (Some ?h) = 0"
    by (rule sample_handle_valid)
  have v1: "validate (Some ?h1) = 0"
    using v by (simp add: validate_Some_iff)
  have f: "flags ?h AND PRIV_FLAGS_FRAMEBUFFER = 0"
    by (simp add: eval_defs)
  have p: "pid ?h = getpid (sample_env 1)"
    by (simp add: eval_defs)
  have first: "gralloc_unregister_buffer (sample_env 1) (Some ?h)
       = (0, Some ?h1, [Munmap 0x1000 4096])"
    by (simp add: unregister_valid [OF v]) (simp add: eval_defs word_sless_alt)
  have second: "gralloc_unregister_buffer (sample_env 1) (Some ?h1)
       = (0, Some ?h1, [Munmap 0 4096])"
    by (simp add: unregister_valid [OF v1]) (simp add: eval_defs word_sless_alt)
  have ex: "list_ex is_munmap (snd (snd (gralloc_unregister_buffer (sample_env 1) (Some ?h1))))"
    by (simp add: second)
  from v f p first second ex show ?thesis by blast
qed

text \<open>
  Claim C6, as the code has it: \<open>gralloc_register_buffer\<close> stores the calling process
  id into every handle that passes \<open>validate\<close>, before it looks at the flags. On a
  failing path (the framebuffer bit set, or neither that bit nor the ION bit) it
  returns the negative \<open>-EINVAL\<close>, calls no mapping primitive, and leaves every field
  other than \<open>pid\<close> as it was, \<open>pid\<close> now being the caller's. On the ION path the
  mapping primitive receives the handle with \<open>pid\<close> already recorded, and its status
  and the handle as it leaves it are the result.
\<close>

theorem register_records_pid_first:
  assumes "validate (Some hnd) = 0"
  shows "(flags hnd AND PRIV_FLAGS_FRAMEBUFFER \<noteq> 0
          \<longrightarrow> gralloc_register_buffer e (Some hnd)
               = (- EINVAL, Some (hnd\<lparr>pid := getpid e\<rparr>), [AERR Register_framebuffer]))
    \<and> (flags hnd AND PRIV_FLAGS_FRAMEBUFFER = 0 \<and> flags hnd AND PRIV_FLAGS_USES_ION = 0
          \<longrightarrow> gralloc_register_buffer e (Some hnd)
               = (- EINVAL, Some (hnd\<lparr>pid := getpid e\<rparr>), [AERR Register_unknown_flags]))
    \<and> (flags hnd AND PRIV_FLAGS_FRAMEBUFFER = 0 \<and> flags hnd AND PRIV_FLAGS_USES_ION \<noteq> 0
          \<longrightarrow> gralloc_register_buffer e (Some hnd)
               = (fst (gralloc_backend_register e (hnd\<lparr>pid := getpid e\<rparr>)),
                  Some (snd (gralloc_backend_register e (hnd\<lparr>pid := getpid e\<rparr>))),
                  [Backend_register]))
    \<and> - EINVAL <s 0"
  using assms by (simp add: register_valid neg_EINVAL_sless)

theorem register_records_pid_first_witness:
  "validate (Some (sample_handle 2 1)) = 0
   \<and> flags (sample_handle 2 1) AND PRIV_FLAGS_FRAMEBUFFER = 0
   \<and> flags (sample_handle 2 1) AND PRIV_FLAGS_USES_ION = 0
   \<and> gralloc_register_buffer (sample_env 2) (Some (sample_handle 2 1))
       = (- EINVAL, Some ((sample_handle 2 1)\<lparr>pid := getpid (sample_env 2)\<rparr>),
          [AERR Register_unknown_flags])
   \<and> getpid (sample_env 2) = 2"
proof -
  have v: "validate (Some (sample_handle 2 1)) = 0"
    by (rule sample_handle_valid)
  have f: "flags (sample_handle 2 1) AND PRIV_FLAGS_FRAMEBUFFER = 0"
    by (simp add: eval_defs)
  have i: "flags (sample_handle 2 1) AND PRIV_FLAGS_USES_ION = 0"
    by (simp add: eval_defs)
  have g: "getpid (sample_env 2) = 2"
    by (simp add: eval_defs)
  from register_records_pid_first [OF v, of "sample_env 2"] v f i g show ?thesis
    by blast
qed

text \<open>
  Claim C6 as stated, with \<open>pid\<close> unmodified on a failing path, fails: a valid
  framebuffer handle created by process 1 and registered from process 2 is refused with
  \<open>-EINVAL\<close>, and its \<open>pid\<close> is 2 afterwards.
\<close>

theorem register_failure_keeps_pid_counterexample:
  "validate (Some (sample_handle 1 1)) = 0
   \<and> pid (sample_handle 1 1) = 1
   \<and> fst (gralloc_register_buffer (sample_env 2) (Some (sample_handle 1 1))) = - EINVAL
   \<and> - EINVAL <s 0
   \<and> map_option pid (fst (snd (gralloc_register_buffer (sample_env 2) (Some (sample_handle 1 1)))))
       = Some 2
   \<and> fst (snd (gralloc_register_buffer (sample_env 2) (Some (sample_handle 1 1))))
       \<noteq> Some (sample_handle 1 1)"
proof -
  have v: "validate (Some (sample_handle 1 1)) = 0"
    by (rule sample_handle_valid)
  have p: "pid (sample_handle 1 1) = 1"
    by (simp add: eval_defs)
  have r: "gralloc_register_buffer (sample_env 2) (Some (sample_handle 1 1))
       = (- EINVAL, Some ((sample_handle 1 1)\<lparr>pid := 2\<rparr>), [AERR Register_framebuffer])"
    by (simp add: register_valid [OF v]) (simp add: eval_defs)
  have d: "(sample_handle 1 1)\<lparr>pid := 2\<rparr> \<noteq> sample_handle 1 1"
  proof
    assume "(sample_handle 1 1)\<lparr>pid := 2\<rparr> = sample_handle 1 1"
    then have "pid ((sample_handle 1 1)\<lparr>pid := 2\<rparr>) = pid (sample_handle 1 1)"
      by (rule arg_cong)
    with p show False by simp
  qed
  from v p d show ?thesis
    by (simp add: r neg_EINVAL_sless)
qed

section \<open>Lock and unlock\<close>

text \<open>
  Claim C7: for every valid handle, \<open>gralloc_lock\<close> returns 0, and it stores the
  handle's \<open>base\<close> through \<open>vaddr\<close> if and only if the usage has at least one CPU read
  bit or CPU write bit; with neither, nothing is stored through \<open>vaddr\<close>, whatever
  \<open>base\<close> is.
\<close>

theorem lock_vaddr_iff_cpu_usage:
  assumes "validate (Some hnd) = 0"
  shows "fst (gralloc_lock (Some hnd) u l t w r) = 0
    \<and> (fst (snd (snd (gralloc_lock (Some hnd) u l t w r))) = Some (base hnd)
        \<longleftrightarrow> u AND GRALLOC_USAGE_SW_READ_MASK \<noteq> 0 \<or> u AND GRALLOC_USAGE_SW_WRITE_MASK \<noteq> 0)
    \<and> (u AND GRALLOC_USAGE_SW_READ_MASK = 0 \<and> u AND GRALLOC_USAGE_SW_WRITE_MASK = 0
        \<longrightarrow> fst (snd (snd (gralloc_lock (Some hnd) u l t w r))) = None)"
  using assms by (auto simp: lock_valid and_or_mask_eq_0)

theorem lock_vaddr_iff_cpu_usage_witness:
  "validate (Some (sample_handle 4 1)) = 0
   \<and> gralloc_lock (Some (sample_handle 4 1)) 0x100 0 0 64 64
       = (0, Some (sample_handle 4 1), None, [])
   \<and> base (sample_handle 4 1) = 0x1000
   \<and> fst (snd (snd (gralloc_lock (Some (sample_handle 4 1)) 0x3 0 0 64 64))) = Some 0x1000"
proof -
  have v: "validate (Some (sample_handle 4 1)) = 0"
    by (rule sample_handle_valid)
  have b: "base (sample_handle 4 1) = 0x1000"
    by (simp add: eval_defs)
  have r: "gralloc_lock (Some (sample_handle 4 1)) 0x100 0 0 64 64
       = (0, Some (sample_handle 4 1), None, [])"
    by (simp add: lock_valid [OF v]) (simp add: eval_defs)
  have u: "(0x3 :: int32) AND GRALLOC_USAGE_SW_READ_MASK \<noteq> 0"
    by (simp add: eval_defs)
  from lock_vaddr_iff_cpu_usage [OF v, of "0x3" 0 0 64 64] u b
  have "fst (snd (snd (gralloc_lock (Some (sample_handle 4 1)) 0x3 0 0 64 64))) = Some 0x1000"
    by simp
  with v b r show ?thesis by blast
qed

section \<open>Invalid handles\<close>

text \<open>
  Claim C8: for every handle on which \<open>validate\<close> fails (a null handle among them),
  each of the four operations returns \<open>-EINVAL\<close>, a negative result, at once: the
  handle is returned as it was, nothing is stored through \<open>vaddr\<close>, the only call made
  is the log line, and the result depends neither on the environment nor on any other
  field of the handle.
\<close>

theorem invalid_handle_fails_fast:
  assumes "validate h \<noteq> 0"
  shows "gralloc_register_buffer e h = (- EINVAL, h, [AERR Register_invalid_buffer])
    \<and> gralloc_unregister_buffer e h = (- EINVAL, h, [AERR Unregister_invalid_buffer])
    \<and> gralloc_lock h u l t w r = (- EINVAL, h, None, [AERR Lock_invalid_buffer])
    \<and> gralloc_unlock e h = (- EINVAL, h, [AERR Unlock_invalid_buffer])
    \<and> - EINVAL <s 0"
  using assms
  by (simp add: register_invalid unregister_invalid lock_invalid unlock_invalid neg_EINVAL_sless)

theorem invalid_handle_fails_fast_witness:
  "validate (Some ((sample_handle 4 1)\<lparr>magic := 0\<rparr>)) \<noteq> 0
   \<and> gralloc_unregister_buffer (sample_env 1) (Some ((sample_handle 4 1)\<lparr>magic := 0\<rparr>))
       = (- EINVAL, Some ((sample_handle 4 1)\<lparr>magic := 0\<rparr>), [AERR Unregister_invalid_buffer])
   \<and> gralloc_lock None 0x33 0 0 1 1 = (- EINVAL, None, None, [AERR Lock_invalid_buffer])"
proof -
  have v: "validate (Some ((sample_handle 4 1)\<lparr>magic := 0\<rparr>)) \<noteq> 0"
    by (simp add: validate_def eval_defs)
  have n: "validate None \<noteq> 0"
    by (simp add: validate_None EINVAL_def)
  from invalid_handle_fails_fast [OF v, of "sample_env 1"]
    invalid_handle_fails_fast [OF n, of "sample_env 1" "0x33" 0 0 1 1] v
  show ?thesis by blast
qed

section \<open>Write ownership and cache synchronisation\<close>

text \<open>
  Claim C2, as the code has it: for every valid handle with the ION bit,
  \<open>gralloc_lock\<close> stores \<open>usage & GRALLOC_USAGE_SW_WRITE_MASK\<close> in \<open>writeOwner\<close>, so
  a usage with a CPU write bit makes it non-zero and a usage without one (a later
  read-only lock among them) makes it zero; \<open>gralloc_unlock\<close> issues \<open>ion_sync_fd\<close>
  if and only if \<open>writeOwner\<close> is non-zero at that moment and the module lookup
  \<open>hw_get_module\<close> succeeds; and \<open>gralloc_unlock\<close> returns 0 and leaves the handle
  as it was, so \<open>writeOwner\<close> stays until the next lock overwrites it.
\<close>

theorem lock_sets_writeOwner_unlock_syncs:
  assumes "validate (Some hnd) = 0"
    and "flags hnd AND PRIV_FLAGS_USES_ION \<noteq> 0"
  shows "fst (snd (gralloc_lock (Some hnd) u l t w r))
           = Some (hnd\<lparr>writeOwner := u AND GRALLOC_USAGE_SW_WRITE_MASK\<rparr>)
    \<and> (u AND GRALLOC_USAGE_SW_WRITE_MASK \<noteq> 0
        \<longrightarrow> map_option writeOwner (fst (snd (gralloc_lock (Some hnd) u l t w r))) \<noteq> Some 0)
    \<and> (u AND GRALLOC_USAGE_SW_WRITE_MASK = 0
        \<longrightarrow> map_option writeOwner (fst (snd (gralloc_lock (Some hnd) u l t w r))) = Some 0)
    \<and> (list_ex is_sync (snd (snd (gralloc_unlock e (Some hnd))))
        \<longleftrightarrow> writeOwner hnd \<noteq> 0 \<and> fst (hw_get_module e) = 0)
    \<and> fst (gralloc_unlock e (Some hnd)) = 0
    \<and> fst (snd (gralloc_unlock e (Some hnd))) = Some hnd"
  using assms by (simp add: lock_valid unlock_valid)

theorem lock_sets_writeOwner_unlock_syncs_witness:
  "validate (Some (sample_handle 4 1)) = 0
   \<and> flags (sample_handle 4 1) AND PRIV_FLAGS_USES_ION \<noteq> 0
   \<and> fst (snd (gralloc_lock (Some (sample_handle 4 1)) 0x30 0 0 64 64))
       = Some ((sample_handle 4 1)\<lparr>writeOwner := 0x30\<rparr>)
   \<and> fst (snd (gralloc_lock (Some ((sample_handle 4 1)\<lparr>writeOwner := 0x30\<rparr>)) 0x3 0 0 64 64))
       = Some ((sample_handle 4 1)\<lparr>writeOwner := 0\<rparr>)
   \<and> gralloc_unlock (sample_env 1) (Some ((sample_handle 4 1)\<lparr>writeOwner := 0x30\<rparr>))
       = (0, Some ((sample_handle 4 1)\<lparr>writeOwner := 0x30\<rparr>), [Ion_sync_fd 7 (- 1)])
   \<and> list_ex is_sync
        (snd (snd (gralloc_unlock (sample_env 1) (Some ((sample_handle 4 1)\<lparr>writeOwner := 0x30\<rparr>)))))
   \<and> gralloc_unlock (sample_env 1) (Some ((sample_handle 4 1)\<lparr>writeOwner := 0\<rparr>))
       = (0, Some ((sample_handle 4 1)\<lparr>writeOwner := 0\<rparr>), [])"
proof -
  let ?h = "sample_handle 4 1"
  let ?hw = "(sample_handle 4 1)\<lparr>writeOwner := 0x30\<rparr>"
  let ?hr = "(sample_handle 4 1)\<lparr>writeOwner := 0\<rparr>"
  have v: "validate (Some ?h) = 0"
    by (rule sample_handle_valid)
  have vw: "validate (Some ?hw) = 0"
    using v by (simp add: validate_Some_iff)
  have vr: "validate (Some ?hr) = 0"
    using v by (simp add: validate_Some_iff)
  have f: "flags ?h AND PRIV_FLAGS_USES_ION \<noteq> 0"
    by (simp add: eval_defs)
  have fw: "flags ?hw AND PRIV_FLAGS_USES_ION \<noteq> 0"
    using f by simp
  have m1: "(0x30 :: int32) AND GRALLOC_USAGE_SW_WRITE_MASK = 0x30"
    by (simp add: eval_defs)
  have m2: "(0x3 :: int32) AND GRALLOC_USAGE_SW_WRITE_MASK = 0"
    by (simp add: eval_defs)
  have l1: "fst (snd (gralloc_lock (Some ?h) 0x30 0 0 64 64)) = Some ?hw"
    using lock_sets_writeOwner_unlock_syncs [OF v f, of "0x30" 0 0 64 64] m1 by simp
  have l2: "fst (snd (gralloc_lock (Some ?hw) 0x3 0 0 64 64)) = Some ?hr"
    using lock_sets_writeOwner_unlock_syncs [OF vw fw, of "0x3" 0 0 64 64] m2 by simp
  have u1: "gralloc_unlock (sample_env 1) (Some ?hw) = (0, Some ?hw, [Ion_sync_fd 7 (- 1)])"
    using fw by (simp add: unlock_valid [OF vw]) (simp add: eval_defs)
  have s1: "list_ex is_sync (snd (snd (gralloc_unlock (sample_env 1) (Some ?hw))))"
    by (simp add: u1)
  have u2: "gralloc_unlock (sample_env 1) (Some ?hr) = (0, Some ?hr, [])"
    by (simp add: unlock_valid [OF vr])
  from v f l1 l2 u1 s1 u2 show ?thesis by blast
qed

text \<open>
  Claim C2 as stated, with \<open>writeOwner\<close> alone deciding the synchronisation, fails:
  for a valid ION handle left with \<open>writeOwner = 0x30\<close> by a write lock, when
  \<open>hw_get_module\<close> answers \<open>-2\<close> the unlock logs and returns 0 without calling
  \<open>ion_sync_fd\<close>.
\<close>

theorem unlock_sync_iff_writeOwner_counterexample:
  "validate (Some ((sample_handle 4 1)\<lparr>writeOwner := 0x30\<rparr>)) = 0
   \<and> flags ((sample_handle 4 1)\<lparr>writeOwner := 0x30\<rparr>) AND PRIV_FLAGS_USES_ION \<noteq> 0
   \<and> writeOwner ((sample_handle 4 1)\<lparr>writeOwner := 0x30\<rparr>) \<noteq> 0
   \<and> gralloc_unlock ((sample_env 1)\<lparr>hw_get_module := (- 2, \<lparr>ion_client = 0\<rparr>)\<rparr>)
        (Some ((sample_handle 4 1)\<lparr>writeOwner := 0x30\<rparr>))
       = (0, Some ((sample_handle 4 1)\<lparr>writeOwner := 0x30\<rparr>), [AERR Unlock_no_module])
   \<and> \<not> list_ex is_sync
        (snd (snd (gralloc_unlock ((sample_env 1)\<lparr>hw_get_module := (- 2, \<lparr>ion_client = 0\<rparr>)\<rparr>)
           (Some ((sample_handle 4 1)\<lparr>writeOwner := 0x30\<rparr>)))))"
proof -
  let ?hw = "(sample_handle 4 1)\<lparr>writeOwner := 0x30\<rparr>"
  let ?e = "(sample_env 1)\<lparr>hw_get_module := (- 2, \<lparr>ion_client = 0\<rparr>)\<rparr>"
  have vw: "validate (Some ?hw) = 0"
    using sample_handle_valid [of 4 1] by (simp add: validate_Some_iff)
  have fw: "flags ?hw AND PRIV_FLAGS_USES_ION \<noteq> 0"
    by (simp add: eval_defs)
  have w: "writeOwner ?hw \<noteq> 0"
    by simp
  have u: "gralloc_unlock ?e (Some ?hw) = (0, Some ?hw, [AERR Unlock_no_module])"
    using fw by (simp add: unlock_valid [OF vw])
  have s: "\<not> list_ex is_sync (snd (snd (gralloc_unlock ?e (Some ?hw))))"
    by (simp add: u)
  from vw fw w u s show ?thesis by blast
qed

text \<open>
  Claim C10: \<open>gralloc_lock\<close> and \<open>gralloc_unlock\<close> return 0 if and only if
  \<open>validate\<close> succeeds, and the negative \<open>-EINVAL\<close> otherwise, whatever the
  registration state, lock state and flags of the handle. In particular a lock with a
  CPU usage bit on any valid handle, registered or not, returns 0 and hands back the
  stored \<open>base\<close>; on a handle that its owning process has just unregistered it returns
  0 and hands back the address 0.
\<close>

theorem lock_unlock_fail_iff_invalid:
  "(fst (gralloc_lock h u l t w r) = 0 \<longleftrightarrow> validate h = 0)
   \<and> (fst (gralloc_unlock e h) = 0 \<longleftrightarrow> validate h = 0)
   \<and> (validate h \<noteq> 0
       \<longrightarrow> fst (gralloc_lock h u l t w r) = - EINVAL \<and> fst (gralloc_unlock e h) = - EINVAL)
   \<and> - EINVAL <s 0
   \<and> (validate (Some hnd) = 0
        \<and> (u AND GRALLOC_USAGE_SW_READ_MASK \<noteq> 0 \<or> u AND GRALLOC_USAGE_SW_WRITE_MASK \<noteq> 0)
       \<longrightarrow> fst (gralloc_lock (Some hnd) u l t w r) = 0
           \<and> fst (snd (snd (gralloc_lock (Some hnd) u l t w r))) = Some (base hnd))
   \<and> (validate (Some hnd) = 0 \<and> flags hnd AND PRIV_FLAGS_FRAMEBUFFER = 0 \<and> pid hnd = getpid e
        \<and> (u AND GRALLOC_USAGE_SW_READ_MASK \<noteq> 0 \<or> u AND GRALLOC_USAGE_SW_WRITE_MASK \<noteq> 0)
       \<longrightarrow> fst (gralloc_lock (fst (snd (gralloc_unregister_buffer e (Some hnd)))) u l t w r) = 0
           \<and> fst (snd (snd (gralloc_lock (fst (snd (gralloc_unregister_buffer e (Some hnd))))
                 u l t w r))) = Some 0)"
proof -
  have a: "fst (gralloc_lock h u l t w r) = 0 \<longleftrightarrow> validate h = 0"
  proof (cases "validate h = 0")
    case True
    then obtain x where "h = Some x"
      by (cases h) (simp_all add: validate_None EINVAL_def)
    with True show ?thesis by (simp add: lock_valid)
  next
    case False
    then show ?thesis by (simp add: lock_invalid EINVAL_def)
  qed
  have b: "fst (gralloc_unlock e h) = 0 \<longleftrightarrow> validate h = 0"
  proof (cases "validate h = 0")
    case True
    then obtain x where "h = Some x"
      by (cases h) (simp_all add: validate_None EINVAL_def)
    with True show ?thesis by (simp add: unlock_valid)
  next
    case False
    then show ?thesis by (simp add: unlock_invalid EINVAL_def)
  qed
  have c: "validate h \<noteq> 0
       \<longrightarrow> fst (gralloc_lock h u l t w r) = - EINVAL \<and> fst (gralloc_unlock e h) = - EINVAL"
    by (simp add: lock_invalid unlock_invalid)
  have d: "validate (Some hnd) = 0
        \<and> (u AND GRALLOC_USAGE_SW_READ_MASK \<noteq> 0 \<or> u AND GRALLOC_USAGE_SW_WRITE_MASK \<noteq> 0)
       \<longrightarrow> fst (gralloc_lock (Some hnd) u l t w r) = 0
           \<and> fst (snd (snd (gralloc_lock (Some hnd) u l t w r))) = Some (base hnd)"
    by (auto simp: lock_valid and_or_mask_eq_0)
  have e: "validate (Some hnd) = 0 \<and> flags hnd AND PRIV_FLAGS_FRAMEBUFFER = 0 \<and> pid hnd = getpid e
        \<and> (u AND GRALLOC_USAGE_SW_READ_MASK \<noteq> 0 \<or> u AND GRALLOC_USAGE_SW_WRITE_MASK \<noteq> 0)
       \<longrightarrow> fst (gralloc_lock (fst (snd (gralloc_unregister_buffer e (Some hnd)))) u l t w r) = 0
           \<and> fst (snd (snd (gralloc_lock (fst (snd (gralloc_unregister_buffer e (Some hnd))))
                 u l t w r))) = Some 0"
  proof (intro impI, elim conjE)
    let ?h1 = "hnd\<lparr>base := 0, lockState := 0, writeOwner := 0\<rparr>"
    assume v: "validate (Some hnd) = 0"
      and f: "flags hnd AND PRIV_FLAGS_FRAMEBUFFER = 0"
      and p: "pid hnd = getpid e"
      and cpu: "u AND GRALLOC_USAGE_SW_READ_MASK \<noteq> 0 \<or> u AND GRALLOC_USAGE_SW_WRITE_MASK \<noteq> 0"
    have un: "fst (snd (gralloc_unregister_buffer e (Some hnd))) = Some ?h1"
      using f p by (simp add: unregister_valid [OF v])
    have v1: "validate (Some ?h1) = 0"
      using v by (simp add: validate_Some_iff)
    have m: "u AND (GRALLOC_USAGE_SW_READ_MASK OR GRALLOC_USAGE_SW_WRITE_MASK) \<noteq> 0"
      using cpu by (simp add: and_or_mask_eq_0)
    show "fst (gralloc_lock (fst (snd (gralloc_unregister_buffer e (Some hnd)))) u l t w r) = 0
           \<and> fst (snd (snd (gralloc_lock (fst (snd (gralloc_unregister_buffer e (Some hnd))))
                 u l t w r))) = Some 0"
      using m by (simp add: un lock_valid [OF v1])
  qed
  from a b c d e neg_EINVAL_sless show ?thesis by blast
qed

theorem lock_unlock_fail_iff_invalid_witness:
  "validate (Some (sample_handle 4 1)) = 0
   \<and> flags (sample_handle 4 1) AND PRIV_FLAGS_FRAMEBUFFER = 0
   \<and> pid (sample_handle 4 1) = getpid (sample_env 1)
   \<and> base (sample_handle 4 1) = 0x1000
   \<and> fst (gralloc_lock (Some (sample_handle 4 1)) 0x33 0 0 64 64) = 0
   \<and> fst (snd (snd (gralloc_lock (Some (sample_handle 4 1)) 0x33 0 0 64 64))) = Some 0x1000
   \<and> fst (gralloc_unlock (sample_env 1) (Some (sample_handle 4 1))) = 0
   \<and> fst (gralloc_lock (fst (snd (gralloc_unregister_buffer (sample_env 1)
        (Some (sample_handle 4 1))))) 0x33 0 0 64 64) = 0
   \<and> fst (snd (snd (gralloc_lock (fst (snd (gralloc_unregister_buffer (sample_env 1)
        (Some (sample_handle 4 1))))) 0x33 0 0 64 64))) = Some 0"
proof -
  let ?h = "sample_handle 4 1"
  have v: "validate (Some ?h) = 0"
    by (rule sample_handle_valid)
  have f: "flags ?h AND PRIV_FLAGS_FRAMEBUFFER = 0"
    by (simp add: eval_defs)
  have p: "pid ?h = getpid (sample_env 1)"
    by (simp add: eval_defs)
  have b: "base ?h = 0x1000"
    by (simp add: eval_defs)
  have cpu: "(0x33 :: int32) AND GRALLOC_USAGE_SW_READ_MASK \<noteq> 0"
    by (simp add: eval_defs)
  note t = lock_unlock_fail_iff_invalid
    [of "Some ?h" "0x33" 0 0 64 64 "sample_env 1" ?h]
  from t v f p b cpu show ?thesis by simp
qed

end
